theory Spec2Isabelle
  imports Main "HOL-Library.Sublist" "HOL-Library.AList"
begin

section \<open>Strings and regular expressions of the host language\<close>

text \<open>
  The engine is written in TypeScript. Its strings are modelled as \<open>string\<close> (lists of
  code units, restricted to the range 0..255), and the regular expressions it uses are
  modelled as values of the datatype \<open>regex\<close>, run by a backtracking matcher \<open>m\<close> that
  follows the priority order of the JavaScript matcher: alternatives left to right,
  greedy repetition, an empty iteration of a repetition rejected.
\<close>

datatype regex =
    Chr char
  | Cls "char \<Rightarrow> bool"
  | Eps
  | Seq regex regex
  | Alt regex regex
  | Star regex
  | Grp nat regex
  | Bol
  | Eol
  | WordB
  | NotAhead regex

text \<open>
  \<open>Chr c\<close> is the literal character, \<open>Cls f\<close> a character class, \<open>Eps\<close> the empty
  expression, \<open>Seq\<close> concatenation, \<open>Alt\<close> alternation, \<open>Star\<close> the greedy repetition
  \<open>*\<close>, \<open>Grp n\<close> the capture group number \<open>n\<close>, \<open>Bol\<close> and \<open>Eol\<close> the anchors \<open>^\<close> and
  \<open>$\<close> (no m flag is used), \<open>WordB\<close> the word boundary \<open>\b\<close> and \<open>NotAhead\<close> the negative
  lookahead \<open>(?!...)\<close>.

  A matcher state: the character before the cursor (\<open>None\<close> at the start of the input),
  the text after the cursor, and the capture groups recorded so far (latest first). The
  matcher \<open>m r st k\<close> matches \<open>r\<close> at the state \<open>st\<close> and passes the state after the match
  to the continuation \<open>k\<close>; when \<open>k\<close> fails it tries the next way to match \<open>r\<close>.
\<close>

type_synonym mstate = "char option \<times> string \<times> (nat \<times> string) list"

definition isDigit :: "char \<Rightarrow> bool" where
  "isDigit c = (c \<in> set ''0123456789'')"

definition isWordChar :: "char \<Rightarrow> bool" where
  "isWordChar c =
     (c \<in> set ''abcdefghijklmnopqrstuvwxyzABCDEFGHIJKLMNOPQRSTUVWXYZ0123456789_'')"

text \<open>\<open>\s\<close>: tab, line feed, vertical tab, form feed, carriage return, space, no-break space.\<close>

definition isSpace :: "char \<Rightarrow> bool" where
  "isSpace c =
     (c \<in> set [CHR 0x09, CHR 0x0A, CHR 0x0B, CHR 0x0C, CHR 0x0D, CHR 0x20, CHR 0xA0])"

text \<open>The dot: any character but a line terminator.\<close>

definition isDot :: "char \<Rightarrow> bool" where
  "isDot c = (c \<noteq> CHR 0x0A \<and> c \<noteq> CHR 0x0D)"

definition atWordBoundary :: "char option \<Rightarrow> string \<Rightarrow> bool" where
  "atWordBoundary p a =
     ((case p of None \<Rightarrow> False | Some c \<Rightarrow> isWordChar c) \<noteq>
      (case a of [] \<Rightarrow> False | c # _ \<Rightarrow> isWordChar c))"

fun m :: "regex \<Rightarrow> mstate \<Rightarrow> (mstate \<Rightarrow> mstate option) \<Rightarrow> mstate option" where
  "m (Chr c) (p, a, g) k =
     (case a of [] \<Rightarrow> None | x # xs \<Rightarrow> if x = c then k (Some x, xs, g) else None)"
| "m (Cls f) (p, a, g) k =
     (case a of [] \<Rightarrow> None | x # xs \<Rightarrow> if f x then k (Some x, xs, g) else None)"
| "m Eps st k = k st"
| "m (Seq r1 r2) st k = m r1 st (\<lambda>st'. m r2 st' k)"
| "m (Alt r1 r2) st k = (case m r1 st k of Some res \<Rightarrow> Some res | None \<Rightarrow> m r2 st k)"
| "m (Star r) (p, a, g) k =
     (case m r (p, a, g)
             (\<lambda>(p', a', g'). if length a' < length a then m (Star r) (p', a', g') k else None) of
        Some res \<Rightarrow> Some res
      | None \<Rightarrow> k (p, a, g))"
| "m (Grp n r) (p, a, g) k =
     m r (p, a, g) (\<lambda>(p', a', g'). k (p', a', (n, take (length a - length a') a) # g'))"
| "m Bol (p, a, g) k = (if p = None then k (p, a, g) else None)"
| "m Eol (p, a, g) k = (if a = [] then k (p, a, g) else None)"
| "m WordB (p, a, g) k = (if atWordBoundary p a then k (p, a, g) else None)"
| "m (NotAhead r) st k = (case m r st Some of Some _ \<Rightarrow> None | None \<Rightarrow> k st)"

text \<open>
  A literal text, a sequence of expressions, an alternation of literal texts, and the
  repetition \<open>+\<close>.
\<close>

fun lit :: "string \<Rightarrow> regex" where
  "lit [] = Eps"
| "lit [c] = Chr c"
| "lit (c # cs) = Seq (Chr c) (lit cs)"

fun seqs :: "regex list \<Rightarrow> regex" where
  "seqs [] = Eps"
| "seqs [r] = r"
| "seqs (r # rs) = Seq r (seqs rs)"

fun alts :: "string list \<Rightarrow> regex" where
  "alts [] = NotAhead Eps"
| "alts [s] = lit s"
| "alts (s # ss) = Alt (lit s) (alts ss)"

definition plus_rx :: "regex \<Rightarrow> regex" where
  "plus_rx r = Seq r (Star r)"

text \<open>
  \<open>search r p a\<close>: the leftmost match of \<open>r\<close> in the text \<open>a\<close> that follows the
  character \<open>p\<close>. The result is the text from the start of the match on, and the state
  at the end of the match.
\<close>

fun search :: "regex \<Rightarrow> char option \<Rightarrow> string \<Rightarrow> (string \<times> mstate) option" where
  "search r p a =
     (case m r (p, a, []) Some of
        Some res \<Rightarrow> Some (a, res)
      | None \<Rightarrow> (case a of [] \<Rightarrow> None | x # xs \<Rightarrow> search r (Some x) xs))"

text \<open>\<open>regex.test(s)\<close> and \<open>s.match(regex)\<close> of a regular expression without the g flag.\<close>

definition regex_test :: "regex \<Rightarrow> string \<Rightarrow> bool" where
  "regex_test r s = (search r None s \<noteq> None)"

definition group :: "(nat \<times> string) list \<Rightarrow> nat \<Rightarrow> string" where
  "group g n = (case map_of g n of Some s \<Rightarrow> s | None \<Rightarrow> [])"

definition regex_match :: "regex \<Rightarrow> string \<Rightarrow> (nat \<times> string) list option" where
  "regex_match r s = (case search r None s of None \<Rightarrow> None | Some (_, _, _, g) \<Rightarrow> Some g)"

text \<open>
  \<open>s.replace(regex, f)\<close> of a regular expression with the g flag: every match, left to
  right, is replaced by \<open>f\<close> of the matched text and its capture groups; after an empty
  match the scan moves one character on.
\<close>

fun replaceAll :: "regex \<Rightarrow> (string \<Rightarrow> (nat \<times> string) list \<Rightarrow> string) \<Rightarrow> char option \<Rightarrow> string \<Rightarrow> string" where
  "replaceAll r f p a =
     (case m r (p, a, []) Some of
        Some (p', a', g) \<Rightarrow>
          if length a' < length a
          then f (take (length a - length a') a) g @ replaceAll r f p' a'
          else f [] g @ (case a of [] \<Rightarrow> [] | x # xs \<Rightarrow> x # replaceAll r f (Some x) xs)
      | None \<Rightarrow> (case a of [] \<Rightarrow> [] | x # xs \<Rightarrow> x # replaceAll r f (Some x) xs))"

definition regex_replace :: "string \<Rightarrow> regex \<Rightarrow> (string \<Rightarrow> (nat \<times> string) list \<Rightarrow> string) \<Rightarrow> string" where
  "regex_replace s r f = replaceAll r f None s"

fun includes_js :: "string \<Rightarrow> string \<Rightarrow> bool" where
  "includes_js [] sub = (sub = [])"
| "includes_js (x # xs) sub = (prefix sub (x # xs) \<or> includes_js xs sub)"

definition startsWith :: "string \<Rightarrow> string \<Rightarrow> bool" where
  "startsWith s pre = prefix pre s"

definition trim :: "string \<Rightarrow> string" where
  "trim s = rev (dropWhile isSpace (rev (dropWhile isSpace s)))"

fun split_js :: "char \<Rightarrow> string \<Rightarrow> string list" where
  "split_js sep [] = [[]]"
| "split_js sep (c # cs) =
     (if c = sep then [] # split_js sep cs
      else (case split_js sep cs of [] \<Rightarrow> [[c]] | w # ws \<Rightarrow> (c # w) # ws))"

fun join_js :: "string \<Rightarrow> string list \<Rightarrow> string" where
  "join_js sep [] = []"
| "join_js sep [s] = s"
| "join_js sep (s # ss) = s @ sep @ join_js sep ss"

fun digits :: "nat \<Rightarrow> string" where
  "digits n = (if n < 10 then [''0123456789'' ! n] else digits (n div 10) @ [''0123456789'' ! (n mod 10)])"

declare digits.simps [simp del]

fun digitValue :: "char \<Rightarrow> nat" where
  "digitValue c = length (takeWhile (\<lambda>d. d \<noteq> c) ''0123456789'')"

definition parseDigits :: "string \<Rightarrow> nat" where
  "parseDigits s = foldl (\<lambda>n c. 10 * n + digitValue c) 0 s"


section \<open>The data model\<close>

text \<open>
  Values of the context. Numbers carry the integers and not-a-number only (the values
  the engine itself creates are loop indices and lengths); functions, accessors and
  properties inherited from a prototype are not part of the model. An object is the list
  of its own properties in insertion order.
\<close>

datatype jsnum = NaN | Integer int

datatype jsvalue =
    Undefined
  | Null
  | Bool bool
  | Number jsnum
  | Str string
  | Arr "jsvalue list"
  | Obj "(string \<times> jsvalue) list"

type_synonym context_t = "(string \<times> jsvalue) list"

datatype token_type = TEXT | VARIABLE | IF_START | ELSE | IF_END | FOR_START | FOR_END

type_synonym position = "nat \<times> nat"

record token =
  tok_type :: token_type
  tok_value :: string
  tok_position :: position

datatype node =
    TextNode string
  | VariableNode string
  | IfNode string "node list" "node list"
  | ForNode string string "node list" "string option"

text \<open>
  \<open>IfNode condition body elseBody\<close> and \<open>ForNode item iterable body index\<close>.
  Exceptions are values: the class of the error, its message, and what the class
  carries (a position, a token, a node).
\<close>

datatype error =
    Error string
  | TokenizerError string "position option"
  | ParseError string "token option"
  | EvaluationError string "node option"

fun message :: "error \<Rightarrow> string" where
  "message (Error msg) = msg"
| "message (TokenizerError msg _) = msg"
| "message (ParseError msg _) = msg"
| "message (EvaluationError msg _) = msg"

section \<open>utils.ts\<close>

definition numberToString :: "jsnum \<Rightarrow> string" where
  "numberToString n =
     (case n of
        NaN \<Rightarrow> ''NaN''
      | Integer i \<Rightarrow> if i < 0 then CHR ''-'' # digits (nat (- i)) else digits (nat i))"

text \<open>\<open>String(value)\<close>; an array is its elements joined by commas, nullish elements empty.\<close>

fun String_js :: "jsvalue \<Rightarrow> string" where
  "String_js Undefined = ''undefined''"
| "String_js Null = ''null''"
| "String_js (Bool b) = (if b then ''true'' else ''false'')"
| "String_js (Number n) = numberToString n"
| "String_js (Str s) = s"
| "String_js (Arr xs) =
     join_js '','' (map (\<lambda>x. if x = Undefined \<or> x = Null then [] else String_js x) xs)"
| "String_js (Obj _) = ''[object Object]''"

definition typeof :: "jsvalue \<Rightarrow> string" where
  "typeof v =
     (case v of
        Undefined \<Rightarrow> ''undefined''
      | Null \<Rightarrow> ''object''
      | Bool _ \<Rightarrow> ''boolean''
      | Number _ \<Rightarrow> ''number''
      | Str _ \<Rightarrow> ''string''
      | Arr _ \<Rightarrow> ''object''
      | Obj _ \<Rightarrow> ''object'')"

definition hasEncodedEntities_rx :: regex where
  "hasEncodedEntities_rx =
     seqs [Chr CHR ''&'',
           Grp 1 (alts [''amp'', ''lt'', ''gt'', ''quot'', ''#x27'', ''#x2F'', ''#x3A'', ''#x3D'']),
           Chr CHR '';'']"

definition htmlEscapes :: "(string \<times> string) list" where
  "htmlEscapes =
     [(''&'', ''&amp;''),
      (''<'', ''&lt;''),
      (''>'', ''&gt;''),
      ([CHR 0x22], ''&quot;''),
      ([CHR 0x27], ''&#x27;''),
      (''/'', ''&#x2F;''),
      ('':'', ''&#x3A;'')]"

definition isHtmlSpecial :: "char \<Rightarrow> bool" where
  "isHtmlSpecial c = (c \<in> set [CHR ''&'', CHR ''<'', CHR ''>'', CHR 0x22, CHR 0x27, CHR ''/'', CHR '':''])"

definition escapeHtml :: "jsvalue \<Rightarrow> string" where
  "escapeHtml v =
     (if v = Null \<or> v = Undefined then []
      else
        let str = String_js v;
            hasEncodedEntities = regex_test hasEncodedEntities_rx str
        in
          if hasEncodedEntities \<and> includes_js str ''&lt;script&gt;''
               \<and> includes_js str ''&lt;/script&gt;''
          then str
          else
            let escaped = regex_replace str (Cls isHtmlSpecial)
                            (\<lambda>match g. case map_of htmlEscapes match of
                                           Some e \<Rightarrow> e | None \<Rightarrow> ''undefined'')
            in
              if includes_js str ''<'' \<and> includes_js str ''>''
              then regex_replace escaped (Chr CHR ''='') (\<lambda>match g. ''&#x3D;'')
              else if startsWith str ''onclick='' \<and> includes_js str [CHR 0x22]
              then regex_replace escaped (Chr CHR ''='') (\<lambda>match g. ''='')
              else regex_replace escaped (Chr CHR ''='') (\<lambda>match g. ''&#x3D;''))"


text \<open>
  \<open>result[key]\<close> on a value that \<open>typeof\<close> calls an object: an own property of an
  object; an element of an array at a canonical index, or its length.
\<close>

definition isArrayIndex :: "string \<Rightarrow> bool" where
  "isArrayIndex key = (key \<noteq> [] \<and> list_all isDigit key \<and> (key = ''0'' \<or> hd key \<noteq> CHR ''0''))"

definition getProperty :: "jsvalue \<Rightarrow> string \<Rightarrow> jsvalue" where
  "getProperty obj key =
     (case obj of
        Obj props \<Rightarrow> (case map_of props key of Some v \<Rightarrow> v | None \<Rightarrow> Undefined)
      | Arr xs \<Rightarrow>
          if key = ''length'' then Number (Integer (int (length xs)))
          else if isArrayIndex key \<and> parseDigits key < length xs then xs ! parseDigits key
          else Undefined
      | _ \<Rightarrow> Undefined)"

fun get_keys :: "jsvalue \<Rightarrow> string list \<Rightarrow> jsvalue" where
  "get_keys result [] = result"
| "get_keys result (key # keys) =
     (if result = Null \<or> result = Undefined then Undefined
      else if typeof result \<noteq> ''object'' then
        (case result of
           Str s \<Rightarrow> if key = ''length'' then get_keys (Number (Integer (int (length s)))) keys
                    else Undefined
         | _ \<Rightarrow> Undefined)
      else get_keys (getProperty result key) keys)"

definition normalizePath :: "string \<Rightarrow> string" where
  "normalizePath path =
     regex_replace path (seqs [Chr CHR ''['', Grp 1 (plus_rx (Cls isDigit)), Chr CHR '']''])
       (\<lambda>match g. CHR ''.'' # group g 1)"

definition get :: "jsvalue \<Rightarrow> string \<Rightarrow> jsvalue" where
  "get object path =
     (if object = Null \<or> object = Undefined then Undefined
      else get_keys object (split_js CHR ''.'' (normalizePath path)))"

definition DANGEROUS_GLOBALS :: "string list" where
  "DANGEROUS_GLOBALS =
     [''process'', ''require'', ''module'', ''exports'',
      ''__dirname'', ''__filename'', ''Buffer'', ''setTimeout'', ''setInterval'',
      ''eval'', ''Function'', ''constructor'', ''__proto__'', ''prototype'',
      ''toString'', ''valueOf'', ''hasOwnProperty'', ''this'', ''console'']"

definition isQuote :: "char \<Rightarrow> bool" where
  "isQuote c = (c \<in> set [CHR 0x27, CHR 0x22, CHR 0x60])"

definition quotedKey_rx :: "string \<Rightarrow> regex" where
  "quotedKey_rx name =
     seqs [Chr CHR ''['', Star (Cls isSpace), Cls isQuote, lit name, Cls isQuote,
           Star (Cls isSpace), Chr CHR '']'']"

definition DANGEROUS_PATTERNS :: "regex list" where
  "DANGEROUS_PATTERNS =
     [seqs [WordB, Grp 1 (alts [''process'', ''require'', ''module'', ''exports'', ''__dirname'',
                                ''__filename'', ''Buffer'']), WordB],
      seqs [WordB, Grp 1 (alts [''setTimeout'', ''setInterval'', ''eval'', ''Function'',
                                ''console'']), WordB],
      seqs [WordB, Grp 1 (alts [''constructor'', ''__proto__'', ''prototype'']), WordB],
      seqs [WordB, lit ''this'', WordB],
      seqs [WordB, lit ''global'', Star (Cls isSpace), Chr CHR ''.''],
      quotedKey_rx ''constructor'',
      quotedKey_rx ''__proto__'',
      quotedKey_rx ''prototype'',
      quotedKey_rx ''global'',
      seqs [WordB, lit ''function'', Star (Cls isSpace), Chr CHR ''(''],
      lit ''=>'',
      seqs [WordB, Grp 1 (alts [''var'', ''let'', ''const'']), plus_rx (Cls isSpace)]]"

definition dangerousMessage :: string where
  "dangerousMessage = ''Access to dangerous globals is not allowed''"

definition notCloseBracket :: "char \<Rightarrow> bool" where
  "notCloseBracket c = (c \<noteq> CHR '']'')"

text \<open>
  The check of computed property access (the block after the pattern loop of
  \<open>evaluateExpression\<close>): \<open>True\<close> when it throws. \<open>expression.match\<close> has no g flag, so
  it is the first bracket pair with a non-empty content that is looked at.
\<close>

definition computedAccessThrows :: "string \<Rightarrow> bool" where
  "computedAccessThrows expression =
     (if regex_test (seqs [Chr CHR ''['', Star (Cls notCloseBracket), Chr CHR '']'']) expression
      then
        (case regex_match (seqs [Chr CHR ''['', Grp 1 (plus_rx (Cls notCloseBracket)), Chr CHR '']''])
                expression of
           None \<Rightarrow> False
         | Some computedMatch \<Rightarrow>
             let computedExpr = regex_replace (group computedMatch 1) (Cls isQuote) (\<lambda>match g. [])
             in
               if computedExpr \<in> set DANGEROUS_GLOBALS then True
               else (\<not> regex_test (seqs [Bol, plus_rx (Cls isDigit), Eol]) computedExpr
                      \<and> \<not> regex_test (seqs [Bol, Cls isQuote, Star (Cls (\<lambda>c. \<not> isQuote c)),
                                               Cls isQuote, Eol])
                             (group computedMatch 1)))
      else False)"

definition isIdentStart :: "char \<Rightarrow> bool" where
  "isIdentStart c = (c \<in> set ''abcdefghijklmnopqrstuvwxyzABCDEFGHIJKLMNOPQRSTUVWXYZ_$'')"

definition isIdentPart :: "char \<Rightarrow> bool" where
  "isIdentPart c =
     (c \<in> set ''abcdefghijklmnopqrstuvwxyzABCDEFGHIJKLMNOPQRSTUVWXYZ0123456789_$'')"

definition isPathPart :: "char \<Rightarrow> bool" where
  "isPathPart c =
     (c \<in> set ''abcdefghijklmnopqrstuvwxyzABCDEFGHIJKLMNOPQRSTUVWXYZ0123456789_$-'')"

definition simplePropertyPattern :: regex where
  "simplePropertyPattern =
     seqs [Bol, Cls isIdentStart, Star (Cls isPathPart),
           Star (Grp 1 (Alt (Seq (Chr CHR ''.'') (plus_rx (Cls isPathPart)))
                            (seqs [Chr CHR ''['', plus_rx (Cls isDigit), Chr CHR '']'']))),
           Eol]"

definition safeKey_rx :: regex where
  "safeKey_rx = seqs [Bol, Cls isIdentStart, Star (Cls isIdentPart), Eol]"

definition safeKeys :: "context_t \<Rightarrow> string list" where
  "safeKeys context =
     filter (\<lambda>key. key \<notin> set DANGEROUS_GLOBALS \<and> regex_test safeKey_rx key) (map fst context)"

definition declarations :: "context_t \<Rightarrow> string" where
  "declarations context =
     join_js [CHR 0x0A]
       (map (\<lambda>key. ''const '' @ key @ '' = ctx['' @ [CHR 0x22] @ key @ [CHR 0x22] @ ''];'')
            (safeKeys context))"

definition funcCode :: "string \<Rightarrow> context_t \<Rightarrow> string" where
  "funcCode expression context =
     [CHR 0x0A] @ ''      if (ctx == null) return undefined;'' @ [CHR 0x0A] @
     ''      '' @ declarations context @ [CHR 0x0A] @
     ''      return '' @ expression @ '';'' @ [CHR 0x0A] @ ''    ''"

text \<open>
  The general expression path compiles \<open>funcCode\<close> with the host's \<open>Function\<close>
  constructor and calls the result on the context. The host's evaluator is not code of
  the engine: it is the parameter \<open>F\<close>, from the function body and the context to the
  value returned or the error thrown.
\<close>

type_synonym host_function = "string \<Rightarrow> context_t \<Rightarrow> error + jsvalue"

definition evaluateExpression :: "host_function \<Rightarrow> string \<Rightarrow> context_t \<Rightarrow> error + jsvalue" where
  "evaluateExpression F expression context =
     (if expression = [] then Inr Undefined
      else if list_ex (\<lambda>pattern. regex_test pattern expression) DANGEROUS_PATTERNS
      then Inl (Error dangerousMessage)
      else if computedAccessThrows expression then Inl (Error dangerousMessage)
      else if expression = ''global'' then
        (case map_of context ''global'' of
           Some v \<Rightarrow> Inr v
         | None \<Rightarrow> Inl (Error dangerousMessage))
      else if regex_test simplePropertyPattern expression then Inr (get (Obj context) expression)
      else
        (case F (funcCode expression context) context of
           Inr result \<Rightarrow> Inr result
         | Inl e \<Rightarrow>
             if includes_js (message e) ''dangerous globals'' then Inl e
             else if regex_test simplePropertyPattern expression
             then Inr (get (Obj context) expression)
             else Inl (Error ''Invalid expression'')))"

definition safeEvaluate :: "host_function \<Rightarrow> string \<Rightarrow> context_t \<Rightarrow> error + jsvalue" where
  "safeEvaluate F expression context = evaluateExpression F expression context"

definition isTruthy :: "jsvalue \<Rightarrow> bool" where
  "isTruthy v =
     (case v of
        Undefined \<Rightarrow> False
      | Null \<Rightarrow> False
      | Bool b \<Rightarrow> b
      | Number n \<Rightarrow> n \<noteq> Integer 0 \<and> n \<noteq> NaN
      | Str s \<Rightarrow> length s > 0
      | Arr xs \<Rightarrow> length xs > 0
      | Obj _ \<Rightarrow> True)"


section \<open>tokenizer.ts\<close>

datatype pattern_type = Tok token_type | RAW_HTML | INVALID_BLOCK

definition ESCAPED_OPEN_BRACE :: string where
  "ESCAPED_OPEN_BRACE = [CHR 0x00] @ ''ESCAPED_OPEN_BRACE'' @ [CHR 0x00]"

definition ESCAPED_CLOSE_BRACE :: string where
  "ESCAPED_CLOSE_BRACE = [CHR 0x00] @ ''ESCAPED_CLOSE_BRACE'' @ [CHR 0x00]"

definition processTemplate :: "string \<Rightarrow> string" where
  "processTemplate template =
     regex_replace template (Seq (Chr CHR 0x5C) (Grp 1 (Alt (Chr CHR ''{'') (Chr CHR ''}''))))
       (\<lambda>match g. if group g 1 = ''{'' then ESCAPED_OPEN_BRACE else ESCAPED_CLOSE_BRACE)"

definition restoreText :: "string \<Rightarrow> string" where
  "restoreText textValue =
     regex_replace (regex_replace textValue (lit ESCAPED_OPEN_BRACE) (\<lambda>match g. ''{''))
       (lit ESCAPED_CLOSE_BRACE) (\<lambda>match g. ''}'')"

definition notCloseBrace :: "char \<Rightarrow> bool" where
  "notCloseBrace c = (c \<noteq> CHR ''}'')"

definition notPercent :: "char \<Rightarrow> bool" where
  "notPercent c = (c \<noteq> CHR ''%'')"

definition patterns :: "(pattern_type \<times> regex) list" where
  "patterns =
     [(RAW_HTML, seqs [lit ''{{{'', Star (Cls notCloseBrace), lit ''}}}'']),
      (Tok VARIABLE,
         seqs [lit ''{{'', Star (Cls isSpace), Grp 1 (Star (Cls notCloseBrace)),
               Star (Cls isSpace), lit ''}}'']),
      (Tok IF_START,
         seqs [lit ''{%'', Star (Cls isSpace), lit ''if'', plus_rx (Cls isSpace),
               Grp 1 (Star (Cls notPercent)), Star (Cls isSpace), lit ''%}'']),
      (Tok ELSE, seqs [lit ''{%'', Star (Cls isSpace), lit ''else'', Star (Cls isSpace), lit ''%}'']),
      (Tok IF_END, seqs [lit ''{%'', Star (Cls isSpace), lit ''endif'', Star (Cls isSpace), lit ''%}'']),
      (Tok FOR_START,
         seqs [lit ''{%'', Star (Cls isSpace), lit ''for'', plus_rx (Cls isSpace),
               Grp 1 (Star (Cls notPercent)), Star (Cls isSpace), lit ''%}'']),
      (Tok FOR_END, seqs [lit ''{%'', Star (Cls isSpace), lit ''endfor'', Star (Cls isSpace), lit ''%}'']),
      (INVALID_BLOCK, seqs [lit ''{%'', Star (Cls isSpace), lit ''%}''])]"

text \<open>
  \<open>regex.lastIndex = lastIndex; regex.exec(s)\<close> of a regular expression with the g flag:
  the index of the leftmost match at or after \<open>lastIndex\<close>, the matched text and the
  capture groups.
\<close>

definition exec :: "regex \<Rightarrow> string \<Rightarrow> nat \<Rightarrow> (nat \<times> string \<times> (nat \<times> string) list) option" where
  "exec r s lastIndex =
     (if lastIndex > length s then None
      else
        (case search r (if lastIndex = 0 then None else Some (s ! (lastIndex - 1)))
                (drop lastIndex s) of
           None \<Rightarrow> None
         | Some (a0, p', a', g) \<Rightarrow>
             Some (length s - length a0, take (length a0 - length a') a0, g)))"

text \<open>
  The inner loop of \<open>tokenize\<close>: the match with the least index among the patterns, the
  first pattern of the list winning a tie.
\<close>

fun earliest :: "string \<Rightarrow> nat \<Rightarrow> (pattern_type \<times> regex) list
    \<Rightarrow> (pattern_type \<times> nat \<times> string \<times> (nat \<times> string) list) option
    \<Rightarrow> (pattern_type \<times> nat \<times> string \<times> (nat \<times> string) list) option" where
  "earliest s position [] earliestMatch = earliestMatch"
| "earliest s position ((ptype, regex) # ps) earliestMatch =
     (case exec regex s position of
        None \<Rightarrow> earliest s position ps earliestMatch
      | Some (index, matched, g) \<Rightarrow>
          (case earliestMatch of
             None \<Rightarrow> earliest s position ps (Some (ptype, index, matched, g))
           | Some (_, index', _, _) \<Rightarrow>
               if index < index' then earliest s position ps (Some (ptype, index, matched, g))
               else earliest s position ps earliestMatch))"

definition slice :: "string \<Rightarrow> nat \<Rightarrow> nat \<Rightarrow> string" where
  "slice s i j = take (j - i) (drop i s)"

text \<open>The token of a match, or the error thrown for it.\<close>

definition matchToken :: "pattern_type \<Rightarrow> nat \<Rightarrow> string \<Rightarrow> (nat \<times> string) list \<Rightarrow> error + token" where
  "matchToken ptype index matched g =
     (let pos = (index, index + length matched) in
      case ptype of
        INVALID_BLOCK \<Rightarrow> Inl (TokenizerError ''Empty block expression'' (Some pos))
      | RAW_HTML \<Rightarrow> Inl (TokenizerError ''Raw HTML not supported'' (Some pos))
      | Tok VARIABLE \<Rightarrow>
          if trim (group g 1) = [] then Inl (TokenizerError ''Empty variable expression'' (Some pos))
          else Inr \<lparr>tok_type = VARIABLE, tok_value = trim (group g 1), tok_position = pos\<rparr>
      | Tok IF_START \<Rightarrow>
          if trim (group g 1) = [] then Inl (TokenizerError ''Empty block expression'' (Some pos))
          else Inr \<lparr>tok_type = IF_START, tok_value = trim (group g 1), tok_position = pos\<rparr>
      | Tok FOR_START \<Rightarrow>
          if trim (group g 1) = [] then Inl (TokenizerError ''Empty block expression'' (Some pos))
          else Inr \<lparr>tok_type = FOR_START, tok_value = trim (group g 1), tok_position = pos\<rparr>
      | Tok t \<Rightarrow> Inr \<lparr>tok_type = t, tok_value = [], tok_position = pos\<rparr>)"


text \<open>
  The main loop of \<open>tokenize\<close>. It ends because every pattern starts with two literal
  characters, so that a match moves \<open>position\<close> forward.
\<close>

function tokenize_loop :: "string \<Rightarrow> nat \<Rightarrow> token list \<Rightarrow> error + token list" where
  "tokenize_loop s position tokens =
     (if position < length s then
        (case earliest s position patterns None of
           Some (ptype, index, matched, g) \<Rightarrow>
             (let tokens1 =
                (if index > position \<and> slice s position index \<noteq> []
                 then tokens @ [\<lparr>tok_type = TEXT, tok_value = restoreText (slice s position index),
                                 tok_position = (position, index)\<rparr>]
                 else tokens)
              in case matchToken ptype index matched g of
                   Inl e \<Rightarrow> Inl e
                 | Inr tok \<Rightarrow> tokenize_loop s (index + length matched) (tokens1 @ [tok]))
         | None \<Rightarrow>
             (let remainingText = drop position s in
              if remainingText \<noteq> []
              then Inr (tokens @ [\<lparr>tok_type = TEXT, tok_value = restoreText remainingText,
                                   tok_position = (position, position + length (restoreText remainingText))\<rparr>])
              else Inr tokens))
      else Inr tokens)"
  by pat_completeness auto
termination
proof -
  have m_consumes: "\<exists>st'. k st' = Some res \<and> length (fst (snd st')) \<le> length (fst (snd st))"
    if "m r st k = Some res" for r st k res
    using that
  proof (induction r st k arbitrary: res rule: m.induct)
    case (1 c p a g k)
    then show ?case by (fastforce split: list.splits if_splits)
  next
    case (2 f p a g k)
    then show ?case by (fastforce split: list.splits if_splits)
  next
    case (3 st k)
    then show ?case by fastforce
  next
    case (4 r1 r2 st k)
    from "4.prems" have "m r1 st (\<lambda>st'. m r2 st' k) = Some res" by simp
    from "4.IH"(2)[OF this] obtain st1 where a: "m r2 st1 k = Some res" and b: "length (fst (snd st1)) \<le> length (fst (snd st))" by auto
    from "4.IH"(1)[OF a] obtain st2 where "k st2 = Some res" "length (fst (snd st2)) \<le> length (fst (snd st1))" by auto
    with b show ?case by (intro exI[of _ st2]) auto
  next
    case (5 r1 r2 st k)
    then show ?case by (auto split: option.splits)
  next
    case (6 r p a g k)
    show ?case
    proof (cases "m r (p, a, g) (\<lambda>(p', a', g'). if length a' < length a then m (Star r) (p', a', g') k else None)")
      case None
      with "6.prems" have "k (p, a, g) = Some res" by simp
      then show ?thesis by (intro exI[of _ "(p, a, g)"]) auto
    next
      case (Some r')
      with "6.prems" have eq: "r' = res" by simp
      from "6.IH"(2)[OF Some[unfolded eq]] obtain st1 where
        a: "(case st1 of (p', a', g') \<Rightarrow> if length a' < length a then m (Star r) (p', a', g') k else None) = Some res"
        and b: "length (fst (snd st1)) \<le> length a" by auto
      obtain p1 a1 g1 where st1: "st1 = (p1, a1, g1)" by (cases st1) auto
      from a st1 have lt: "length a1 < length a" and c: "m (Star r) (p1, a1, g1) k = Some res"
        by (auto split: if_splits)
      from "6.IH"(1)[OF lt c] obtain st2 where "k st2 = Some res" "length (fst (snd st2)) \<le> length a1" by auto
      with lt show ?thesis by (intro exI[of _ st2]) auto
    qed
  next
    case (7 n r p a g k)
    from "7.prems" have "m r (p, a, g) (\<lambda>(p', a', g'). k (p', a', (n, take (length a - length a') a) # g')) = Some res" by simp
    from "7.IH"[OF this] show ?case by (fastforce split: prod.splits)
  next
    case (8 p a g k)
    then show ?case by (fastforce split: if_splits)
  next
    case (9 p a g k)
    then show ?case by (fastforce split: if_splits)
  next
    case (10 p a g k)
    then show ?case by (fastforce split: if_splits)
  next
    case (11 r st k)
    then show ?case by (fastforce split: option.splits)
  qed
  define consuming where "consuming = (\<lambda>r. \<forall>p a g k res. m r (p, a, g) k = Some res \<longrightarrow>
      (\<exists>p' a' g'. k (p', a', g') = Some res \<and> length a' < length a))"
  have consuming_Chr: "consuming (Seq (Chr c) r)" for c r
    unfolding consuming_def
  proof (intro allI impI)
    fix p a g k res
    assume h: "m (Seq (Chr c) r) (p, a, g) k = Some res"
    then obtain xs where a: "a = c # xs" and r: "m r (Some c, xs, g) k = Some res"
      by (auto split: list.splits if_splits)
    from m_consumes[OF r] obtain st' where "k st' = Some res" "length (fst (snd st')) \<le> length xs"
      by auto
    with a show "\<exists>p' a' g'. k (p', a', g') = Some res \<and> length a' < length a"
      by (cases st') fastforce
  qed
  have consuming_Seq: "consuming (Seq r1 r2)" if c: "consuming r1" for r1 r2
    unfolding consuming_def
  proof (intro allI impI)
    fix p a g k res
    assume h: "m (Seq r1 r2) (p, a, g) k = Some res"
    then have "m r1 (p, a, g) (\<lambda>st'. m r2 st' k) = Some res" by simp
    with c obtain p1 a1 g1 where r: "m r2 (p1, a1, g1) k = Some res" and lt: "length a1 < length a"
      unfolding consuming_def by blast
    from m_consumes[OF r] obtain st' where "k st' = Some res" "length (fst (snd st')) \<le> length a1"
      by auto
    with lt show "\<exists>p' a' g'. k (p', a', g') = Some res \<and> length a' < length a"
      by (cases st') fastforce
  qed
  have patterns_consuming: "consuming r" if "(ptype, r) \<in> set patterns" for ptype r
    using that by (auto simp: patterns_def intro!: consuming_Seq consuming_Chr)
  have search_bounds: "length a' < length a0 \<and> length a0 \<le> length a"
    if "search r p a = Some (a0, p', a', g')" "consuming r" for r p a a0 p' a' g'
    using that
  proof (induction r p a rule: search.induct)
    case (1 r p a)
    show ?case
    proof (cases "m r (p, a, []) Some")
      case None
      with "1.prems" obtain x xs where a: "a = x # xs"
        and s: "search r (Some x) xs = Some (a0, p', a', g')"
        by (auto split: list.splits)
      from "1.IH"[OF None a s "1.prems"(2)] a show ?thesis by simp
    next
      case (Some res)
      with "1.prems" have eq: "a0 = a" "res = (p', a', g')" by auto
      from Some "1.prems"(2) eq show ?thesis unfolding consuming_def by fastforce
    qed
  qed
  have exec_bounds: "pos < index + length matched"
    if e: "exec r s pos = Some (index, matched, g)" and c: "consuming r" and le: "pos \<le> length s"
    for r s pos index matched g
  proof -
    from e obtain a0 p' a' where
      s: "search r (if pos = 0 then None else Some (s ! (pos - 1))) (drop pos s) = Some (a0, p', a', g)"
      and i: "index = length s - length a0" and mt: "matched = take (length a0 - length a') a0"
      unfolding exec_def by (auto split: option.splits if_splits simp del: search.simps)
    from search_bounds[OF s c] have "length a' < length a0" "length a0 \<le> length s - pos" by auto
    with i mt le show ?thesis by auto
  qed
  have earliest_bounds:
    "\<forall>pt i mt g'. earliest s pos ps em = Some (pt, i, mt, g') \<longrightarrow> pos < i + length mt"
    if "\<forall>x \<in> set ps. consuming (snd x)" "pos \<le> length s"
      "\<forall>pt i mt g'. em = Some (pt, i, mt, g') \<longrightarrow> pos < i + length mt"
    for ps pos s em
    using that
  proof (induction ps arbitrary: em)
    case Nil
    then show ?case by simp
  next
    case (Cons x ps)
    obtain pt regex where x: "x = (pt, regex)" by (cases x) auto
    have c: "consuming regex" using Cons.prems(1) x by simp
    have cs: "\<forall>x \<in> set ps. consuming (snd x)" using Cons.prems(1) by simp
    show ?case
    proof (cases "exec regex s pos")
      case None
      then have "earliest s pos (x # ps) em = earliest s pos ps em" using x by simp
      with Cons.IH[OF cs Cons.prems(2) Cons.prems(3)] show ?thesis by simp
    next
      case (Some res)
      obtain i mt g' where res: "res = (i, mt, g')" by (cases res) auto
      from exec_bounds[OF Some[unfolded res] c Cons.prems(2)] have b: "pos < i + length mt" .
      have new: "\<forall>pt' i' mt' g''. Some (pt, i, mt, g') = Some (pt', i', mt', g'')
                   \<longrightarrow> pos < i' + length mt'"
        using b by simp
      have "earliest s pos (x # ps) em = earliest s pos ps em \<or>
            earliest s pos (x # ps) em = earliest s pos ps (Some (pt, i, mt, g'))"
        using x Some res by (auto split: option.splits)
      with Cons.IH[OF cs Cons.prems(2) Cons.prems(3)] Cons.IH[OF cs Cons.prems(2) new]
      show ?thesis by metis
    qed
  qed
  show ?thesis
  proof (relation "measure (\<lambda>(s, position, tokens). length s - position)")
    show "wf (measure (\<lambda>(s, position, tokens). length s - position))" by simp
  next
    fix s position tokens x2 x y xa ya xb yb tokens1 tok
    assume lt: "position < length s" and "earliest s position patterns None = Some x2"
      "(x, y) = x2" "(xa, ya) = y" "(xb, yb) = ya"
    then have e: "earliest s position patterns None = Some (x, xa, xb, yb)" by simp
    have "position < xa + length xb"
      using earliest_bounds[of patterns position s None] e lt patterns_consuming
      by fastforce
    with lt
    show "((s, xa + length xb, tokens1 @ [tok]), s, position, tokens)
            \<in> measure (\<lambda>(s, position, tokens). length s - position)"
      by simp
  qed
qed

definition validateUnclosedExpressions :: "string \<Rightarrow> error option" where
  "validateUnclosedExpressions template =
     (case exec (seqs [lit ''{{'', NotAhead (seqs [Star (Cls notCloseBrace), lit ''}}''])]) template 0 of
        Some (index, _, _) \<Rightarrow>
          Some (TokenizerError ''Unclosed variable expression'' (Some (index, index + 2)))
      | None \<Rightarrow>
          (case exec (seqs [lit ''{%'', NotAhead (seqs [Star (Cls notPercent), lit ''%}''])]) template 0 of
             Some (index, _, _) \<Rightarrow>
               Some (TokenizerError ''Unclosed block expression'' (Some (index, index + 2)))
           | None \<Rightarrow> None))"

definition blockPairs :: "token_type \<Rightarrow> token_type option" where
  "blockPairs t = (if t = IF_START then Some IF_END else if t = FOR_START then Some FOR_END else None)"

fun validateMismatchedBlocks_loop :: "token list \<Rightarrow> token list \<Rightarrow> error option" where
  "validateMismatchedBlocks_loop [] stack = None"
| "validateMismatchedBlocks_loop (token # tokens) stack =
     (if tok_type token = IF_START \<or> tok_type token = FOR_START
      then validateMismatchedBlocks_loop tokens (token # stack)
      else if tok_type token = IF_END \<or> tok_type token = FOR_END
      then (case stack of
              [] \<Rightarrow> validateMismatchedBlocks_loop tokens stack
            | lastBlock # stack' \<Rightarrow>
                if Some (tok_type token) \<noteq> blockPairs (tok_type lastBlock)
                then Some (TokenizerError ''Mismatched block tags'' (Some (tok_position token)))
                else validateMismatchedBlocks_loop tokens stack')
      else validateMismatchedBlocks_loop tokens stack)"

definition validateMismatchedBlocks :: "token list \<Rightarrow> error option" where
  "validateMismatchedBlocks tokens = validateMismatchedBlocks_loop tokens []"

definition tokenize :: "string \<Rightarrow> error + token list" where
  "tokenize template =
     (let processedTemplate = processTemplate template in
      case validateUnclosedExpressions processedTemplate of
        Some e \<Rightarrow> Inl e
      | None \<Rightarrow>
          (case tokenize_loop processedTemplate 0 [] of
             Inl e \<Rightarrow> Inl e
           | Inr tokens \<Rightarrow>
               (case validateMismatchedBlocks tokens of
                  Some e \<Rightarrow> Inl e
                | None \<Rightarrow> Inr tokens)))"


section \<open>parser.ts\<close>

definition forIndexed_rx :: regex where
  "forIndexed_rx =
     seqs [Bol, Grp 1 (plus_rx (Cls isWordChar)), Chr CHR '','', Star (Cls isSpace),
           Grp 2 (plus_rx (Cls isWordChar)), plus_rx (Cls isSpace), lit ''in'',
           plus_rx (Cls isSpace), Grp 3 (plus_rx (Cls isDot)), Eol]"

definition forSimple_rx :: regex where
  "forSimple_rx =
     seqs [Bol, Grp 1 (plus_rx (Cls isWordChar)), plus_rx (Cls isSpace), lit ''in'',
           plus_rx (Cls isSpace), Grp 2 (plus_rx (Cls isDot)), Eol]"

text \<open>The header of a for loop: item, index and iterable, or \<open>None\<close> when neither syntax matches.\<close>

definition parseForHeader :: "string \<Rightarrow> (string \<times> string option \<times> string) option" where
  "parseForHeader forExpression =
     (case regex_match forIndexed_rx forExpression of
        Some g \<Rightarrow> Some (group g 1, Some (group g 2), group g 3)
      | None \<Rightarrow>
          (case regex_match forSimple_rx forExpression of
             None \<Rightarrow> None
           | Some g \<Rightarrow> Some (group g 1, None, group g 2)))"

function parseNodes :: "token list \<Rightarrow> error + (node list \<times> token list)"
  and parseIfStatement :: "token \<Rightarrow> token list \<Rightarrow> error + (node \<times> token list)"
  and parseForLoop :: "token \<Rightarrow> token list \<Rightarrow> error + (node \<times> token list)" where
  "parseNodes [] = Inr ([], [])"
| "parseNodes (token # tokens) =
     (case tok_type token of
        TEXT \<Rightarrow>
          (case parseNodes tokens of
             Inl e \<Rightarrow> Inl e
           | Inr (nodes, rest) \<Rightarrow> Inr (TextNode (tok_value token) # nodes, rest))
      | VARIABLE \<Rightarrow>
          (case parseNodes tokens of
             Inl e \<Rightarrow> Inl e
           | Inr (nodes, rest) \<Rightarrow> Inr (VariableNode (tok_value token) # nodes, rest))
      | IF_START \<Rightarrow>
          (case parseIfStatement token tokens of
             Inl e \<Rightarrow> Inl e
           | Inr (n, rest) \<Rightarrow>
               (case parseNodes rest of
                  Inl e \<Rightarrow> Inl e
                | Inr (nodes, rest') \<Rightarrow> Inr (n # nodes, rest')))
      | FOR_START \<Rightarrow>
          (case parseForLoop token tokens of
             Inl e \<Rightarrow> Inl e
           | Inr (n, rest) \<Rightarrow>
               (case parseNodes rest of
                  Inl e \<Rightarrow> Inl e
                | Inr (nodes, rest') \<Rightarrow> Inr (n # nodes, rest')))
      | IF_END \<Rightarrow> Inr ([], token # tokens)
      | FOR_END \<Rightarrow> Inr ([], token # tokens)
      | ELSE \<Rightarrow> Inr ([], token # tokens))"
| "parseIfStatement ifToken tokens =
     (let condition = trim (tok_value ifToken) in
      if condition = [] then Inl (ParseError ''Empty if condition'' (Some ifToken))
      else
        (case parseNodes tokens of
           Inl e \<Rightarrow> Inl e
         | Inr (body, rest) \<Rightarrow>
             (case (case rest of
                      t # rest1 \<Rightarrow> if tok_type t = ELSE then parseNodes rest1 else Inr ([], rest)
                    | [] \<Rightarrow> Inr ([], rest)) of
                Inl e \<Rightarrow> Inl e
              | Inr (elseBody, rest2) \<Rightarrow>
                  (case rest2 of
                     t # rest3 \<Rightarrow>
                       if tok_type t \<noteq> IF_END
                       then Inl (ParseError ''Unmatched if statement'' (Some ifToken))
                       else Inr (IfNode condition body elseBody, rest3)
                   | [] \<Rightarrow> Inl (ParseError ''Unmatched if statement'' (Some ifToken))))))"
| "parseForLoop forToken tokens =
     (case parseForHeader (tok_value forToken) of
        None \<Rightarrow> Inl (ParseError ''Invalid for loop syntax'' (Some forToken))
      | Some (item, index, iterable) \<Rightarrow>
          (case parseNodes tokens of
             Inl e \<Rightarrow> Inl e
           | Inr (body, rest) \<Rightarrow>
               (case rest of
                  t # rest1 \<Rightarrow>
                    if tok_type t \<noteq> FOR_END
                    then Inl (ParseError ''Unmatched for loop'' (Some forToken))
                    else Inr (ForNode (trim item) (trim iterable) body
                                (case index of
                                   None \<Rightarrow> None
                                 | Some i \<Rightarrow> if i = [] then None else Some (trim i)),
                              rest1)
                | [] \<Rightarrow> Inl (ParseError ''Unmatched for loop'' (Some forToken)))))"
  by pat_completeness auto


termination
proof -
  have parse_length:
    "parseNodes_parseIfStatement_parseForLoop_dom (Inl toks) \<Longrightarrow>
       (\<forall>ns rest. parseNodes toks = Inr (ns, rest) \<longrightarrow> length rest \<le> length toks)"
    "parseNodes_parseIfStatement_parseForLoop_dom (Inr (Inl (t, toks))) \<Longrightarrow>
       (\<forall>n rest. parseIfStatement t toks = Inr (n, rest) \<longrightarrow> length rest \<le> length toks)"
    "parseNodes_parseIfStatement_parseForLoop_dom (Inr (Inr (t, toks))) \<Longrightarrow>
       (\<forall>n rest. parseForLoop t toks = Inr (n, rest) \<longrightarrow> length rest \<le> length toks)"
    for toks t
  proof (induction toks and t toks and t toks rule: parseNodes_parseIfStatement_parseForLoop.pinduct)
    case 1
    then show ?case by (simp add: parseNodes.psimps)
  next
    case (2 token tokens)
    show ?case
    proof (cases "tok_type token")
      case TEXT
      with 2 show ?thesis by (auto simp: parseNodes.psimps split: sum.splits)
    next
      case VARIABLE
      with 2 show ?thesis by (auto simp: parseNodes.psimps split: sum.splits)
    next
      case IF_START
      with 2 show ?thesis by (fastforce simp: parseNodes.psimps split: sum.splits)
    next
      case ELSE
      with 2 show ?thesis by (auto simp: parseNodes.psimps split: sum.splits)
    next
      case IF_END
      with 2 show ?thesis by (auto simp: parseNodes.psimps split: sum.splits)
    next
      case FOR_START
      with 2 show ?thesis by (fastforce simp: parseNodes.psimps split: sum.splits)
    next
      case FOR_END
      with 2 show ?thesis by (auto simp: parseNodes.psimps split: sum.splits)
    qed
  next
    case (3 ifToken tokens)
    then show ?case
      by (fastforce simp: parseIfStatement.psimps Let_def split: sum.splits list.splits if_splits)
  next
    case (4 forToken tokens)
    then show ?case
      by (fastforce simp: parseForLoop.psimps split: sum.splits list.splits if_splits option.splits)
  qed
  show ?thesis
  proof (relation "measure (\<lambda>x. case x of Inl toks \<Rightarrow> 2 * length toks + 1
                                   | Inr (Inl (t, toks)) \<Rightarrow> 2 * length toks + 2
                                   | Inr (Inr (t, toks)) \<Rightarrow> 2 * length toks + 2)", goal_cases)
    case 1
    then show ?case by simp
  next
    case (2 token tokens)
    then show ?case by simp
  next
    case (3 token tokens)
    then show ?case by simp
  next
    case (4 token tokens)
    then show ?case by simp
  next
    case (5 token tokens b x y)
    then show ?case using parse_length(2)[of token tokens] by auto
  next
    case (6 token tokens)
    then show ?case by simp
  next
    case (7 token tokens b x y)
    then show ?case using parse_length(3)[of token tokens] by auto
  next
    case (8 ifToken tokens x)
    then show ?case by simp
  next
    case (9 ifToken tokens x b xa y x21 x22)
    then show ?case using parse_length(1)[of tokens] by auto
  next
    case (10 forToken tokens x2 x y xa ya)
    then show ?case by simp
  qed
qed

definition parse :: "token list \<Rightarrow> error + node list" where
  "parse tokens =
     (case parseNodes tokens of
        Inl e \<Rightarrow> Inl e
      | Inr (nodes, rest) \<Rightarrow>
          (case rest of
             [] \<Rightarrow> Inr nodes
           | token # _ \<Rightarrow>
               if tok_type token = IF_END
               then Inl (ParseError ''Unexpected endif statement'' (Some token))
               else if tok_type token = FOR_END
               then Inl (ParseError ''Unexpected endfor statement'' (Some token))
               else if tok_type token = ELSE
               then Inl (ParseError ''Unexpected else statement'' (Some token))
               else Inr nodes))"

section \<open>evaluator.ts\<close>

definition evaluateTextNode :: "node \<Rightarrow> context_t \<Rightarrow> error + string" where
  "evaluateTextNode node context = (case node of TextNode v \<Rightarrow> Inr v | _ \<Rightarrow> Inr [])"

definition evaluateVariable :: "host_function \<Rightarrow> node \<Rightarrow> context_t \<Rightarrow> error + string" where
  "evaluateVariable F node context =
     (case node of
        VariableNode expression \<Rightarrow>
          (case evaluateExpression F expression context of
             Inr v \<Rightarrow> if v = Null \<or> v = Undefined then Inr [] else Inr (escapeHtml v)
           | Inl e \<Rightarrow>
               if includes_js (message e) ''dangerous globals''
               then Inl (EvaluationError dangerousMessage (Some node))
               else if includes_js (message e) ''Invalid expression''
               then Inl (EvaluationError (''Invalid expression: '' @ expression) (Some node))
               else if includes_js (message e) ''Getter error'' then Inl e
               else Inr [])
      | _ \<Rightarrow> Inr [])"

definition isEvaluationError :: "error \<Rightarrow> bool" where
  "isEvaluationError e = (case e of EvaluationError _ _ \<Rightarrow> True | _ \<Rightarrow> False)"

definition ifCatch :: "node \<Rightarrow> string \<Rightarrow> error + string \<Rightarrow> error + string" where
  "ifCatch node condition r =
     (case r of
        Inr s \<Rightarrow> Inr s
      | Inl e \<Rightarrow>
          if includes_js (message e) ''dangerous globals''
          then Inl (EvaluationError dangerousMessage (Some node))
          else Inl (EvaluationError (''Failed to evaluate if condition: '' @ condition) (Some node)))"

definition forCatch :: "node \<Rightarrow> string \<Rightarrow> error + string \<Rightarrow> error + string" where
  "forCatch node iterable r =
     (case r of
        Inr s \<Rightarrow> Inr s
      | Inl e \<Rightarrow>
          if isEvaluationError e then Inl e
          else if includes_js (message e) ''dangerous globals''
          then Inl (EvaluationError dangerousMessage (Some node))
          else Inl (EvaluationError (''Failed to evaluate for loop: '' @ iterable) (Some node)))"

definition num :: "nat \<Rightarrow> jsvalue" where
  "num n = Number (Integer (int n))"

definition loopContext :: "context_t \<Rightarrow> string \<Rightarrow> string option \<Rightarrow> jsvalue \<Rightarrow> nat \<Rightarrow> nat \<Rightarrow> context_t" where
  "loopContext context item index x i n =
     (let loopContext =
            AList.update ''loop''
              (Obj [(''index'', num i), (''index0'', num i), (''index1'', num (i + 1)),
                    (''first'', Bool (i = 0)), (''last'', Bool (int i = int n - 1)),
                    (''length'', num n)])
              (AList.update item x context)
      in case index of
           None \<Rightarrow> loopContext
         | Some ix \<Rightarrow> if ix = [] then loopContext else AList.update ix (num i) loopContext)"

text \<open>
  \<open>Array.from\<close> of a string, and of an array-like object whose length property is the
  number \<open>n\<close>: the array of the properties at the indices below the length, where
  not-a-number and negative lengths count as zero. An array of 4294967296 elements or
  more cannot be created: \<open>Array.from\<close> throws a range error.
\<close>

definition arrayFromString :: "string \<Rightarrow> jsvalue list" where
  "arrayFromString s = map (\<lambda>c. Str [c]) s"

definition arrayFromArrayLike :: "jsvalue \<Rightarrow> jsnum \<Rightarrow> error + jsvalue list" where
  "arrayFromArrayLike obj n =
     (case n of
        NaN \<Rightarrow> Inr []
      | Integer l \<Rightarrow>
          if l \<ge> 4294967296 then Inl (Error ''Invalid array length'')
          else Inr (map (\<lambda>k. getProperty obj (digits k)) [0..<nat l]))"

function (sequential) evaluate :: "host_function \<Rightarrow> node list \<Rightarrow> context_t \<Rightarrow> error + string"
  and evaluateNode :: "host_function \<Rightarrow> node \<Rightarrow> context_t \<Rightarrow> error + string"
  and evaluateIfNode :: "host_function \<Rightarrow> node \<Rightarrow> context_t \<Rightarrow> error + string"
  and evaluateForNode :: "host_function \<Rightarrow> node \<Rightarrow> context_t \<Rightarrow> error + string"
  and evaluateArrayLoop :: "host_function \<Rightarrow> node \<Rightarrow> context_t \<Rightarrow> jsvalue list \<Rightarrow> error + string"
  and evaluateArrayLoop_from :: "host_function \<Rightarrow> node \<Rightarrow> context_t \<Rightarrow> nat \<Rightarrow> nat \<Rightarrow> jsvalue list \<Rightarrow> error + string"
  where
  "evaluate F [] context = Inr []"
| "evaluate F (node # nodes) context =
     (case evaluateNode F node context of
        Inl e \<Rightarrow> Inl e
      | Inr s \<Rightarrow> (case evaluate F nodes context of Inl e \<Rightarrow> Inl e | Inr r \<Rightarrow> Inr (s @ r)))"
| "evaluateNode F (TextNode v) context = evaluateTextNode (TextNode v) context"
| "evaluateNode F (VariableNode expression) context = evaluateVariable F (VariableNode expression) context"
| "evaluateNode F (IfNode condition body elseBody) context =
     evaluateIfNode F (IfNode condition body elseBody) context"
| "evaluateNode F (ForNode item iterable body index) context =
     evaluateForNode F (ForNode item iterable body index) context"
| "evaluateIfNode F (IfNode condition body elseBody) context =
     ifCatch (IfNode condition body elseBody) condition
       (case evaluateExpression F condition context of
          Inl e \<Rightarrow> Inl e
        | Inr conditionResult \<Rightarrow>
            if isTruthy conditionResult then evaluate F body context
            else if elseBody \<noteq> [] then evaluate F elseBody context
            else Inr [])"
| "evaluateIfNode F _ context = Inr []"
| "evaluateForNode F (ForNode item iterable body index) context =
     forCatch (ForNode item iterable body index) iterable
       (case evaluateExpression F iterable context of
          Inl e \<Rightarrow> Inl e
        | Inr it \<Rightarrow>
            (case it of
               Undefined \<Rightarrow> Inr []
             | Null \<Rightarrow> Inr []
             | Arr xs \<Rightarrow> evaluateArrayLoop F (ForNode item iterable body index) context xs
             | Str s \<Rightarrow>
                 evaluateArrayLoop F (ForNode item iterable body index) context (arrayFromString s)
             | Obj props \<Rightarrow>
                 (case getProperty it ''length'' of
                    Number n \<Rightarrow>
                      (case arrayFromArrayLike it n of
                         Inl e \<Rightarrow> Inl e
                       | Inr array \<Rightarrow>
                           evaluateArrayLoop F (ForNode item iterable body index) context array)
                  | _ \<Rightarrow>
                      Inl (EvaluationError (''Value is not iterable: '' @ typeof it)
                             (Some (ForNode item iterable body index))))
             | _ \<Rightarrow>
                 Inl (EvaluationError (''Value is not iterable: '' @ typeof it)
                        (Some (ForNode item iterable body index)))))"
| "evaluateForNode F _ context = Inr []"
| "evaluateArrayLoop F node context array =
     evaluateArrayLoop_from F node context (length array) 0 array"
| "evaluateArrayLoop_from F node context n i [] = Inr []"
| "evaluateArrayLoop_from F (ForNode item iterable body index) context n i (x # xs) =
     (case evaluate F body (loopContext context item index x i n) of
        Inl e \<Rightarrow> Inl e
      | Inr s \<Rightarrow>
          (case evaluateArrayLoop_from F (ForNode item iterable body index) context n (i + 1) xs of
             Inl e \<Rightarrow> Inl e
           | Inr r \<Rightarrow> Inr (s @ r)))"
| "evaluateArrayLoop_from F _ context n i (x # xs) = Inr []"
  by pat_completeness auto
termination
  by (relation "inv_image (less_than <*lex*> less_than <*lex*> less_than)
        (\<lambda>x. case x of
           Inl (Inl (F, nodes, c)) \<Rightarrow> (size_list size nodes, 0, 0)
         | Inl (Inr (Inl (F, n, c))) \<Rightarrow> (size n, 4, 0)
         | Inl (Inr (Inr (F, n, c))) \<Rightarrow> (size n, 3, 0)
         | Inr (Inl (F, n, c)) \<Rightarrow> (size n, 3, 0)
         | Inr (Inr (Inl (F, n, c, a))) \<Rightarrow> (size n, 2, 0)
         | Inr (Inr (Inr (F, n, c, len, i, xs))) \<Rightarrow> (size n, Suc 0, length xs))")
     auto

section \<open>index.ts\<close>

definition positionKeyword_rx :: regex where
  "positionKeyword_rx =
     (let ci = (\<lambda>lower upper. seqs (map (\<lambda>(l, u). Cls (\<lambda>x. x = l \<or> x = u)) (zip lower upper)))
      in Alt (ci ''position'' ''POSITION'') (Alt (ci ''line'' ''LINE'') (ci ''column'' ''COLUMN'')))"

text \<open>
  The catch block of \<open>render\<close>: an error with a position is replaced by a plain error
  whose message names the position; an error whose message mentions a position, line or
  column is passed on; every other error is wrapped.
\<close>

definition renderCatch :: "error \<Rightarrow> error" where
  "renderCatch e =
     (case e of
        TokenizerError msg (Some (s, e')) \<Rightarrow>
          Error (msg @ '' at position '' @ digits s @ ''-'' @ digits e')
      | _ \<Rightarrow>
          if regex_test positionKeyword_rx (message e) then e
          else Error (''Template rendering failed: '' @ message e))"

text \<open>
  \<open>render\<close>; the context argument is \<open>None\<close> for a null or undefined context. The type of
  the argument leaves no context that is not an object.
\<close>

definition render :: "host_function \<Rightarrow> string \<Rightarrow> context_t option \<Rightarrow> error + string" where
  "render F template context =
     (let normalizedContext = (case context of None \<Rightarrow> [] | Some c \<Rightarrow> c) in
      case tokenize template of
        Inl e \<Rightarrow> Inl (renderCatch e)
      | Inr tokens \<Rightarrow>
          (case parse tokens of
             Inl e \<Rightarrow> Inl (renderCatch e)
           | Inr ast \<Rightarrow>
               (case evaluate F ast normalizedContext of
                  Inl e \<Rightarrow> Inl (renderCatch e)
                | Inr result \<Rightarrow> Inr result)))"


section \<open>Notions of the specification\<close>

text \<open>
  A host function for the inputs whose evaluation never reaches the host's evaluator: it
  rejects every function body.
\<close>

definition rejectingHost :: host_function where
  "rejectingHost code context = Inl (Error ''SyntaxError'')"










section \<open>Properties\<close>

subsection \<open>Evaluation of the expressions and templates of the claims\<close>

declare search.simps [simp del] replaceAll.simps [simp del] tokenize_loop.simps [simp del]

lemma scan_v:
  "list_ex (\<lambda>pattern. regex_test pattern ''v'') DANGEROUS_PATTERNS = False"
  "computedAccessThrows ''v'' = False"
  "regex_test simplePropertyPattern ''v'' = True"
  "split_js CHR ''.'' (normalizePath ''v'') = [''v'']"
  by code_simp+

lemma evaluateExpression_v: "evaluateExpression F ''v'' ctx = Inr (getProperty (Obj ctx) ''v'')"
  unfolding evaluateExpression_def get_def
  by (simp add: scan_v typeof_def)

lemma tokenize_v:
  "tokenize ''{{ v }}'' = Inr [\<lparr>tok_type = VARIABLE, tok_value = ''v'', tok_position = (0, 7)\<rparr>]"
  by code_simp

lemma parse_v:
  "parse [\<lparr>tok_type = VARIABLE, tok_value = ''v'', tok_position = (0, 7)\<rparr>] = Inr [VariableNode ''v'']"
  by code_simp

lemma escapeHtml_script: "escapeHtml (Str ''<script>'') = ''&lt;script&gt;''"
  by code_simp

subsection \<open>C3: a script tag in a variable is escaped\<close>

text \<open>
  C3. For every context that binds the variable \<open>v\<close> to the string \<open><script>\<close>,
  rendering the template \<open>{{ v }}\<close> yields \<open>&lt;script&gt;\<close>, and this output does not
  contain the text \<open><script>\<close>.
\<close>

theorem render_script_escaped:
  assumes "map_of context ''v'' = Some (Str ''<script>'')"
  shows "render F ''{{ v }}'' (Some context) = Inr ''&lt;script&gt;''
         \<and> \<not> includes_js ''&lt;script&gt;'' ''<script>''"
  using assms
  by (simp add: render_def tokenize_v parse_v evaluateVariable_def evaluateExpression_v
      getProperty_def escapeHtml_script)

theorem render_script_escaped_witness:
  "\<forall>F. map_of [(''v'', Str ''<script>''), (''w'', Null)] ''v'' = Some (Str ''<script>'')
     \<and> render F ''{{ v }}'' (Some [(''v'', Str ''<script>''), (''w'', Null)]) = Inr ''&lt;script&gt;''"
  using render_script_escaped [of "[(''v'', Str ''<script>''), (''w'', Null)]"] by simp


subsection \<open>C4: truthiness of a condition\<close>

lemma tokenize_if:
  "tokenize ''{% if v %}T{% else %}F{% endif %}'' =
     Inr [\<lparr>tok_type = IF_START, tok_value = ''v'', tok_position = (0, 10)\<rparr>,
          \<lparr>tok_type = TEXT, tok_value = ''T'', tok_position = (10, 11)\<rparr>,
          \<lparr>tok_type = ELSE, tok_value = [], tok_position = (11, 21)\<rparr>,
          \<lparr>tok_type = TEXT, tok_value = ''F'', tok_position = (21, 22)\<rparr>,
          \<lparr>tok_type = IF_END, tok_value = [], tok_position = (22, 33)\<rparr>]"
  by code_simp

lemma parse_if:
  "parse [\<lparr>tok_type = IF_START, tok_value = ''v'', tok_position = (0, 10)\<rparr>,
          \<lparr>tok_type = TEXT, tok_value = ''T'', tok_position = (10, 11)\<rparr>,
          \<lparr>tok_type = ELSE, tok_value = [], tok_position = (11, 21)\<rparr>,
          \<lparr>tok_type = TEXT, tok_value = ''F'', tok_position = (21, 22)\<rparr>,
          \<lparr>tok_type = IF_END, tok_value = [], tok_position = (22, 33)\<rparr>] =
   Inr [IfNode ''v'' [TextNode ''T''] [TextNode ''F'']]"
  by code_simp

lemma render_if:
  "render F ''{% if v %}T{% else %}F{% endif %}'' (Some [(''v'', x)]) =
     Inr (if isTruthy x then ''T'' else ''F'')"
  by (simp add: render_def tokenize_if parse_if evaluateExpression_v getProperty_def
      ifCatch_def evaluateTextNode_def)

text \<open>
  C4. Rendering \<open>{% if v %}T{% else %}F{% endif %}\<close> with the context \<open>{v}\<close> yields \<open>F\<close>
  when \<open>v\<close> is false, 0, the empty string, null, undefined, not-a-number or the empty
  array, and \<open>T\<close> when \<open>v\<close> is true, 1, the string \<open>x\<close>, the empty object or the array
  \<open>[1]\<close>.
\<close>

theorem render_truthiness:
  "render F ''{% if v %}T{% else %}F{% endif %}'' (Some [(''v'', Bool False)]) = Inr ''F''
   \<and> render F ''{% if v %}T{% else %}F{% endif %}'' (Some [(''v'', Number (Integer 0))]) = Inr ''F''
   \<and> render F ''{% if v %}T{% else %}F{% endif %}'' (Some [(''v'', Str [])]) = Inr ''F''
   \<and> render F ''{% if v %}T{% else %}F{% endif %}'' (Some [(''v'', Null)]) = Inr ''F''
   \<and> render F ''{% if v %}T{% else %}F{% endif %}'' (Some [(''v'', Undefined)]) = Inr ''F''
   \<and> render F ''{% if v %}T{% else %}F{% endif %}'' (Some [(''v'', Number NaN)]) = Inr ''F''
   \<and> render F ''{% if v %}T{% else %}F{% endif %}'' (Some [(''v'', Arr [])]) = Inr ''F''
   \<and> render F ''{% if v %}T{% else %}F{% endif %}'' (Some [(''v'', Bool True)]) = Inr ''T''
   \<and> render F ''{% if v %}T{% else %}F{% endif %}'' (Some [(''v'', Number (Integer 1))]) = Inr ''T''
   \<and> render F ''{% if v %}T{% else %}F{% endif %}'' (Some [(''v'', Str ''x'')]) = Inr ''T''
   \<and> render F ''{% if v %}T{% else %}F{% endif %}'' (Some [(''v'', Obj [])]) = Inr ''T''
   \<and> render F ''{% if v %}T{% else %}F{% endif %}'' (Some [(''v'', Arr [Number (Integer 1)])]) = Inr ''T''"
  by (simp add: render_if isTruthy_def)

subsection \<open>C2: an interpolated value is not parsed as a template\<close>

lemma escapeHtml_secret: "escapeHtml (Str ''{{ secret }}'') = ''{{ secret }}''"
  by code_simp

text \<open>
  C2, as stated, asks that the output never contains the value of \<open>secret\<close>. The
  output is the fixed text \<open>{{ secret }}\<close>, so it does contain that value when the value
  is a part of this text, such as the string \<open>secret\<close>.
\<close>

theorem render_contains_secret_counterexample:
  "render rejectingHost ''{{ v }}'' (Some [(''v'', Str ''{{ secret }}''), (''secret'', Str ''secret'')])
     = Inr ''{{ secret }}''
   \<and> includes_js ''{{ secret }}'' ''secret''"
  by (simp add: render_def tokenize_v parse_v evaluateVariable_def evaluateExpression_v
      getProperty_def escapeHtml_secret)

text \<open>
  C2, amended. For every string \<open>s\<close>, rendering \<open>{{ v }}\<close> with \<open>v\<close> bound to the text
  \<open>{{ secret }}\<close> and \<open>secret\<close> bound to \<open>s\<close> returns the text \<open>{{ secret }}\<close> itself: the
  value of \<open>v\<close> is not parsed as a template, and the output is the same for every \<open>s\<close>.
\<close>

theorem render_no_injection:
  "render F ''{{ v }}'' (Some [(''v'', Str ''{{ secret }}''), (''secret'', Str s)]) = Inr ''{{ secret }}''
   \<and> render F ''{{ v }}'' (Some [(''v'', Str ''{{ secret }}''), (''secret'', Str s)]) =
     render F ''{{ v }}'' (Some [(''v'', Str ''{{ secret }}''), (''secret'', Str s')])"
  by (simp add: render_def tokenize_v parse_v evaluateVariable_def evaluateExpression_v
      getProperty_def escapeHtml_secret)

subsection \<open>C7: the index variable of a loop\<close>

lemma search_Chr_absent: "c \<notin> set a \<Longrightarrow> search (Seq (Chr c) r) p a = None"
  by (induction a arbitrary: p) (auto simp: search.simps)

lemma replaceAll_Cls_absent: "\<forall>c \<in> set a. \<not> f c \<Longrightarrow> replaceAll (Cls f) h p a = a"
  by (induction a arbitrary: p) (auto simp: replaceAll.simps)

lemma replaceAll_Chr_absent: "c \<notin> set a \<Longrightarrow> replaceAll (Chr c) h p a = a"
  by (induction a arbitrary: p) (auto simp: replaceAll.simps)

lemma includes_js_single: "includes_js s [c] = (c \<in> set s)"
  by (induction s) auto

lemma escapeHtml_plain:
  assumes "v \<noteq> Null" "v \<noteq> Undefined"
    and "\<forall>c \<in> set (String_js v). c \<notin> set [CHR ''&'', CHR ''<'', CHR ''>'', CHR 0x22, CHR 0x27, CHR ''/'', CHR '':'', CHR ''='']"
  shows "escapeHtml v = String_js v"
proof -
  let ?s = "String_js v"
  have amp: "CHR ''&'' \<notin> set ?s" and eq: "CHR ''='' \<notin> set ?s" and lt: "CHR ''<'' \<notin> set ?s"
    using assms(3) by auto
  have t: "regex_test hasEncodedEntities_rx ?s = False"
    unfolding regex_test_def hasEncodedEntities_rx_def using search_Chr_absent[OF amp] by simp
  have e: "regex_replace ?s (Cls isHtmlSpecial) h = ?s" for h
    unfolding regex_replace_def using assms(3) by (intro replaceAll_Cls_absent) (auto simp: isHtmlSpecial_def)
  have q: "regex_replace ?s (Chr CHR ''='') h = ?s" for h
    unfolding regex_replace_def using eq by (rule replaceAll_Chr_absent)
  have i: "includes_js ?s ''<'' = False" using lt by (simp add: includes_js_single)
  show ?thesis
    unfolding escapeHtml_def using assms(1,2) by (simp add: Let_def t e q i)
qed

lemma digits_chars: "set (digits n) \<subseteq> set ''0123456789''"
proof (induction n rule: digits.induct)
  case (1 n)
  have m: "''0123456789'' ! k \<in> set ''0123456789''" if "k < 10" for k
    using that by (intro nth_mem) simp
  show ?case
  proof (cases "n < 10")
    case True
    then show ?thesis using m[of n] by (subst digits.simps) simp
  next
    case False
    have "n mod 10 < 10" by simp
    with False 1 m[of "n mod 10"] show ?thesis by (subst digits.simps) simp
  qed
qed

lemma escapeHtml_num: "escapeHtml (num i) = digits i"
proof -
  have s: "String_js (num i) = digits i" by (simp add: num_def numberToString_def)
  have "escapeHtml (num i) = String_js (num i)"
    by (rule escapeHtml_plain) (use digits_chars[of i] in \<open>auto simp: s simp del: String_js.simps\<close>, auto simp: num_def)
  with s show ?thesis by simp
qed

lemma scan_i:
  "list_ex (\<lambda>pattern. regex_test pattern ''i'') DANGEROUS_PATTERNS = False"
  "computedAccessThrows ''i'' = False"
  "regex_test simplePropertyPattern ''i'' = True"
  "split_js CHR ''.'' (normalizePath ''i'') = [''i'']"
  by code_simp+

lemma evaluateExpression_i: "evaluateExpression F ''i'' ctx = Inr (getProperty (Obj ctx) ''i'')"
  unfolding evaluateExpression_def get_def
  by (simp add: scan_i typeof_def)

lemma scan_xs:
  "list_ex (\<lambda>pattern. regex_test pattern ''xs'') DANGEROUS_PATTERNS = False"
  "computedAccessThrows ''xs'' = False"
  "regex_test simplePropertyPattern ''xs'' = True"
  "split_js CHR ''.'' (normalizePath ''xs'') = [''xs'']"
  by code_simp+

lemma evaluateExpression_xs: "evaluateExpression F ''xs'' ctx = Inr (getProperty (Obj ctx) ''xs'')"
  unfolding evaluateExpression_def get_def
  by (simp add: scan_xs typeof_def)

lemma parse_for:
  "tokenize ''{% for x,i in xs %}{{i}}{% endfor %}'' =
     Inr [\<lparr>tok_type = FOR_START, tok_value = ''x,i in xs'', tok_position = (0, 19)\<rparr>,
          \<lparr>tok_type = VARIABLE, tok_value = ''i'', tok_position = (19, 24)\<rparr>,
          \<lparr>tok_type = FOR_END, tok_value = [], tok_position = (24, 36)\<rparr>]"
  "parse [\<lparr>tok_type = FOR_START, tok_value = ''x,i in xs'', tok_position = (0, 19)\<rparr>,
          \<lparr>tok_type = VARIABLE, tok_value = ''i'', tok_position = (19, 24)\<rparr>,
          \<lparr>tok_type = FOR_END, tok_value = [], tok_position = (24, 36)\<rparr>] =
     Inr [ForNode ''x'' ''xs'' [VariableNode ''i''] (Some ''i'')]"
  by code_simp+

lemma num_not_nullish: "num i \<noteq> Null" "num i \<noteq> Undefined"
  by (simp_all add: num_def)

lemma loop_index_body:
  "evaluate F [VariableNode ''i''] (loopContext ctx ''x'' (Some ''i'') x i n) = Inr (digits i)"
  by (simp add: evaluateVariable_def evaluateExpression_i getProperty_def loopContext_def
      update_conv' escapeHtml_num num_not_nullish)

lemma loop_indices:
  "evaluateArrayLoop_from F (ForNode ''x'' ''xs'' [VariableNode ''i''] (Some ''i'')) ctx n i xs =
     Inr (concat (map digits [i..<i + length xs]))"
proof (induction xs arbitrary: i)
  case Nil
  then show ?case by simp
next
  case (Cons x xs)
  have "[i..<i + length (x # xs)] = i # [Suc i..<Suc i + length xs]"
    by (simp add: upt_rec)
  then show ?case
    using Cons.IH[of "Suc i"] loop_index_body[of F ctx x i n]
    by (simp del: evaluate.simps)
qed

text \<open>
  C7. For every array \<open>xs\<close>, rendering \<open>{% for x,i in xs %}{{i}}{% endfor %}\<close> with the
  context \<open>{xs}\<close> yields the decimal numerals of the indices 0, 1, ..., up to the length
  of \<open>xs\<close> less one, concatenated in this order; for the empty array it yields the empty
  string.
\<close>

theorem render_loop_indices:
  "render F ''{% for x,i in xs %}{{i}}{% endfor %}'' (Some [(''xs'', Arr xs)]) =
     Inr (concat (map digits [0..<length xs]))
   \<and> render F ''{% for x,i in xs %}{{i}}{% endfor %}'' (Some [(''xs'', Arr [])]) = Inr []"
proof -
  have "render F ''{% for x,i in xs %}{{i}}{% endfor %}'' (Some [(''xs'', Arr ys)]) =
     Inr (concat (map digits [0..<length ys]))" for ys
    using loop_indices[of F "[(''xs'', Arr ys)]" "length ys" 0 ys]
    by (simp add: render_def parse_for evaluateExpression_xs getProperty_def forCatch_def
        del: evaluateArrayLoop_from.simps)
  from this[of xs] this[of "[]"] show ?thesis by simp
qed

theorem render_loop_indices_witness:
  "\<forall>F. render F ''{% for x,i in xs %}{{i}}{% endfor %}''
          (Some [(''xs'', Arr [Str ''a'', Null, Number (Integer 7)])]) = Inr ''012''"
proof -
  have "concat (map digits [0..<length [Str ''a'', Null, Number (Integer 7)]]) = ''012''"
    by code_simp
  then show ?thesis
    using render_loop_indices [of _ "[Str ''a'', Null, Number (Integer 7)]"] by simp
qed


subsection \<open>C10: text with an encoded script element is not escaped\<close>

lemma includes_js_split: "includes_js s x \<Longrightarrow> \<exists>pre post. s = pre @ x @ post"
proof (induction s)
  case Nil
  then show ?case by simp
next
  case (Cons c s)
  from Cons.prems have "prefix x (c # s) \<or> includes_js s x" by simp
  then show ?case
  proof
    assume "prefix x (c # s)"
    then obtain post where "c # s = x @ post" by (auto simp: prefix_def)
    then have "c # s = [] @ x @ post" by simp
    then show ?thesis by blast
  next
    assume "includes_js s x"
    with Cons.IH obtain pre post where "s = pre @ x @ post" by blast
    then have "c # s = (c # pre) @ x @ post" by simp
    then show ?thesis by blast
  qed
qed

lemma search_finds:
  assumes "\<And>p. m r (p, x @ post, []) Some \<noteq> None"
  shows "search r p (pre @ x @ post) \<noteq> None"
proof (induction pre arbitrary: p)
  case Nil
  from assms[of p] show ?case by (subst search.simps) (auto split: option.splits)
next
  case (Cons c pre)
  from Cons.IH[of "Some c"] show ?case by (subst search.simps) (auto split: option.splits)
qed

lemma hasEncodedEntities_lt:
  "m hasEncodedEntities_rx (p, ''&lt;script&gt;'' @ post, []) Some \<noteq> None"
  by (simp add: hasEncodedEntities_rx_def)

lemma escapeHtml_unescaped_payload:
  "escapeHtml (Str ''&lt;script&gt;&lt;/script&gt;<script>alert(1)</script>'') =
     ''&lt;script&gt;&lt;/script&gt;<script>alert(1)</script>''"
  by code_simp

text \<open>
  C10. For every value whose string form contains both \<open>&lt;script&gt;\<close> and
  \<open>&lt;/script&gt;\<close>, \<open>escapeHtml\<close> returns the string form unchanged, whatever else the
  string holds; so the output of a rendered variable can contain an unescaped
  \<open><script>\<close> tag.
\<close>

theorem escapeHtml_encoded_script_unchanged:
  assumes "includes_js (String_js v) ''&lt;script&gt;''"
    and "includes_js (String_js v) ''&lt;/script&gt;''"
  shows "escapeHtml v = String_js v
     \<and> render F ''{{ v }}'' (Some [(''v'', Str ''&lt;script&gt;&lt;/script&gt;<script>alert(1)</script>'')])
         = Inr ''&lt;script&gt;&lt;/script&gt;<script>alert(1)</script>''
     \<and> includes_js ''&lt;script&gt;&lt;/script&gt;<script>alert(1)</script>'' ''<script>''"
proof -
  have n: "v \<noteq> Null" "v \<noteq> Undefined" using assms(1) by auto
  from includes_js_split[OF assms(1)] obtain pre post where
    s: "String_js v = pre @ ''&lt;script&gt;'' @ post" by blast
  have "search hasEncodedEntities_rx None (pre @ ''&lt;script&gt;'' @ post) \<noteq> None"
    by (rule search_finds) (rule hasEncodedEntities_lt)
  then have t: "regex_test hasEncodedEntities_rx (String_js v)"
    by (simp add: regex_test_def s)
  have e: "escapeHtml v = String_js v"
    unfolding escapeHtml_def using n t assms by (simp add: Let_def)
  show ?thesis
    by (simp add: e render_def tokenize_v parse_v evaluateVariable_def evaluateExpression_v
        getProperty_def escapeHtml_unescaped_payload)
qed

theorem escapeHtml_encoded_script_unchanged_witness:
  "includes_js (String_js (Arr [Str ''<b>'', Str ''&lt;script&gt;x&lt;/script&gt;''])) ''&lt;script&gt;''
   \<and> includes_js (String_js (Arr [Str ''<b>'', Str ''&lt;script&gt;x&lt;/script&gt;''])) ''&lt;/script&gt;''
   \<and> escapeHtml (Arr [Str ''<b>'', Str ''&lt;script&gt;x&lt;/script&gt;'']) = ''<b>,&lt;script&gt;x&lt;/script&gt;''"
proof -
  have a: "includes_js (String_js (Arr [Str ''<b>'', Str ''&lt;script&gt;x&lt;/script&gt;''])) ''&lt;script&gt;''"
    by code_simp
  have b: "includes_js (String_js (Arr [Str ''<b>'', Str ''&lt;script&gt;x&lt;/script&gt;''])) ''&lt;/script&gt;''"
    by code_simp
  have c: "String_js (Arr [Str ''<b>'', Str ''&lt;script&gt;x&lt;/script&gt;'']) = ''<b>,&lt;script&gt;x&lt;/script&gt;''"
    by code_simp
  from escapeHtml_encoded_script_unchanged [OF a b] a b c show ?thesis by simp
qed

subsection \<open>C9: a template of literal text\<close>

lemma includes_js_suffix: "suffix a s \<Longrightarrow> prefix x a \<Longrightarrow> includes_js s x"
proof (induction s)
  case Nil
  then show ?case by simp
next
  case (Cons c s)
  from Cons.prems(1) have "a = c # s \<or> suffix a s" by (auto simp: suffix_Cons)
  with Cons show ?case by auto
qed

lemma search_nomatch:
  assumes "\<And>p a'. suffix a' a \<Longrightarrow> m r (p, a', []) Some = None"
  shows "search r p a = None"
  using assms
proof (induction a arbitrary: p)
  case Nil
  then show ?case by (subst search.simps) (simp add: Nil)
next
  case (Cons c a)
  have "m r (p, c # a, []) Some = None" by (rule Cons.prems) simp
  moreover have "search r (Some c) a = None"
    by (rule Cons.IH) (rule Cons.prems, simp add: suffix_Cons)
  ultimately show ?case by (subst search.simps) simp
qed

lemma replaceAll_nomatch:
  assumes "\<And>p a'. suffix a' a \<Longrightarrow> m r (p, a', []) Some = None"
  shows "replaceAll r f p a = a"
  using assms
proof (induction a arbitrary: p)
  case Nil
  then show ?case by (subst replaceAll.simps) (simp add: Nil)
next
  case (Cons c a)
  have "m r (p, c # a, []) Some = None" by (rule Cons.prems) simp
  moreover have "replaceAll r f (Some c) a = a"
    by (rule Cons.IH) (rule Cons.prems, simp add: suffix_Cons)
  ultimately show ?case by (subst replaceAll.simps) simp
qed

lemma m_lit: "m (lit x) (p, a, g) k = Some res \<Longrightarrow> prefix x a"
proof (induction x arbitrary: p a g rule: lit.induct)
  case 1
  then show ?case by simp
next
  case (2 c)
  then show ?case by (auto split: list.splits if_splits)
next
  case (3 c v va)
  from "3.prems" obtain xs where a: "a = c # xs" and r: "m (lit (v # va)) (Some c, xs, g) k = Some res"
    by (auto split: list.splits if_splits)
  from "3.IH"[OF r] a show ?case by simp
qed

lemma m_lit_absent:
  assumes "\<not> includes_js s x" "suffix a s"
  shows "m (lit x) (p, a, g) k = None" "m (Seq (lit x) r) (p, a, g) k = None"
proof -
  have np: "\<not> prefix x a" using assms includes_js_suffix by blast
  show "m (lit x) (p, a, g) k = None" for k
    using m_lit[of x p a g k] np by (cases "m (lit x) (p, a, g) k") auto
  then show "m (Seq (lit x) r) (p, a, g) k = None" by simp
qed

lemma regex_replace_lit_absent: "\<not> includes_js s x \<Longrightarrow> regex_replace s (lit x) f = s"
  unfolding regex_replace_def by (rule replaceAll_nomatch) (rule m_lit_absent)

lemma processTemplate_plain:
  assumes "\<not> includes_js t [CHR 0x5C, CHR ''{'']" "\<not> includes_js t [CHR 0x5C, CHR ''}'']"
  shows "processTemplate t = t"
  unfolding processTemplate_def regex_replace_def
proof (rule replaceAll_nomatch)
  fix p a'
  assume s: "suffix a' t"
  have "\<not> prefix [CHR 0x5C, CHR ''{''] a'" "\<not> prefix [CHR 0x5C, CHR ''}''] a'"
    using assms s includes_js_suffix by blast+
  then show "m (Seq (Chr CHR 0x5C) (Grp 1 (Alt (Chr CHR ''{'') (Chr CHR ''}'')))) (p, a', []) Some = None"
    by (auto split: list.splits)
qed

lemma restoreText_plain:
  assumes "\<not> includes_js t ESCAPED_OPEN_BRACE" "\<not> includes_js t ESCAPED_CLOSE_BRACE"
  shows "restoreText t = t"
  unfolding restoreText_def using assms by (simp add: regex_replace_lit_absent)

lemma exec_lit_absent:
  assumes "\<not> includes_js t x"
  shows "exec (Seq (lit x) r) t 0 = None"
proof -
  have "search (Seq (lit x) r) None t = None"
    by (rule search_nomatch) (rule m_lit_absent(2)[OF assms])
  then show ?thesis by (simp add: exec_def)
qed

lemma earliest_plain:
  assumes "\<not> includes_js t ''{{''" "\<not> includes_js t ''{%''"
  shows "earliest t 0 patterns None = None"
proof -
  have a: "\<not> includes_js t ''{{{''"
  proof
    assume "includes_js t ''{{{''"
    from includes_js_split[OF this] obtain pre post where "t = pre @ ''{{{'' @ post" by blast
    then have "t = pre @ ''{{'' @ (''{'' @ post)" by simp
    then have "suffix (''{{'' @ (''{'' @ post)) t" by (simp add: suffix_def)
    from includes_js_suffix[OF this, of "''{{''"] assms(1) show False by simp
  qed
  show ?thesis
    unfolding patterns_def
    using exec_lit_absent[OF assms(1)] exec_lit_absent[OF assms(2)] exec_lit_absent[OF a]
    by simp
qed

lemma validateUnclosedExpressions_plain:
  assumes "\<not> includes_js t ''{{''" "\<not> includes_js t ''{%''"
  shows "validateUnclosedExpressions t = None"
  unfolding validateUnclosedExpressions_def
  using exec_lit_absent[OF assms(1)] exec_lit_absent[OF assms(2)] by simp

lemma tokenize_plain:
  assumes "\<not> includes_js t ''{{''" "\<not> includes_js t ''{%''"
    and "\<not> includes_js t [CHR 0x5C, CHR ''{'']" "\<not> includes_js t [CHR 0x5C, CHR ''}'']"
    and "\<not> includes_js t ESCAPED_OPEN_BRACE" "\<not> includes_js t ESCAPED_CLOSE_BRACE"
  shows "tokenize t =
     Inr (if t = [] then []
          else [\<lparr>tok_type = TEXT, tok_value = t, tok_position = (0, length t)\<rparr>])"
proof -
  have l: "tokenize_loop t 0 [] =
     Inr (if t = [] then []
          else [\<lparr>tok_type = TEXT, tok_value = t, tok_position = (0, length t)\<rparr>])"
    by (subst tokenize_loop.simps)
       (simp add: earliest_plain[OF assms(1,2)] restoreText_plain[OF assms(5,6)])
  show ?thesis
    unfolding tokenize_def
    by (simp add: processTemplate_plain[OF assms(3,4)] validateUnclosedExpressions_plain[OF assms(1,2)]
        l validateMismatchedBlocks_def)
qed

text \<open>
  C9, as stated, fails for a template without markers that holds an escaped brace: a
  backslash followed by an opening brace is rendered as the brace alone.
\<close>

theorem render_escaped_brace_counterexample:
  "\<not> includes_js [CHR 0x5C, CHR ''{''] ''{{'' \<and> \<not> includes_js [CHR 0x5C, CHR ''{''] ''{%''
   \<and> render rejectingHost [CHR 0x5C, CHR ''{''] None = Inr ''{''
   \<and> ''{'' \<noteq> [CHR 0x5C, CHR ''{'']"
  by code_simp

text \<open>
  C9, amended. For every template that contains neither of the marker openers \<open>{{\<close>
  and \<open>{%\<close>, no brace escaped by a backslash and neither of the two placeholders the
  tokenizer uses for escaped braces, and for every context, \<open>render\<close> returns the
  template unchanged.
\<close>

theorem render_plain_text:
  assumes "\<not> includes_js t ''{{''" "\<not> includes_js t ''{%''"
    and "\<not> includes_js t [CHR 0x5C, CHR ''{'']" "\<not> includes_js t [CHR 0x5C, CHR ''}'']"
    and "\<not> includes_js t ESCAPED_OPEN_BRACE" "\<not> includes_js t ESCAPED_CLOSE_BRACE"
  shows "render F t c = Inr t"
  unfolding render_def
  by (simp add: tokenize_plain[OF assms] parse_def evaluateTextNode_def)

theorem render_plain_text_witness:
  "\<forall>F. \<not> includes_js ''a { b } % c'' ''{{'' \<and> \<not> includes_js ''a { b } % c'' ''{%''
     \<and> \<not> includes_js ''a { b } % c'' [CHR 0x5C, CHR ''{'']
     \<and> \<not> includes_js ''a { b } % c'' [CHR 0x5C, CHR ''}'']
     \<and> \<not> includes_js ''a { b } % c'' ESCAPED_OPEN_BRACE
     \<and> \<not> includes_js ''a { b } % c'' ESCAPED_CLOSE_BRACE
     \<and> render F ''a { b } % c'' (Some [(''a'', Null)]) = Inr ''a { b } % c''"
proof -
  have h: "\<not> includes_js ''a { b } % c'' ''{{''" "\<not> includes_js ''a { b } % c'' ''{%''"
    "\<not> includes_js ''a { b } % c'' [CHR 0x5C, CHR ''{'']"
    "\<not> includes_js ''a { b } % c'' [CHR 0x5C, CHR ''}'']"
    "\<not> includes_js ''a { b } % c'' ESCAPED_OPEN_BRACE"
    "\<not> includes_js ''a { b } % c'' ESCAPED_CLOSE_BRACE"
    by code_simp+
  show ?thesis using render_plain_text [OF h] h by simp
qed



subsection \<open>C6: what a for loop iterates\<close>









subsection \<open>C5: structural balance\<close>











subsection \<open>C1: computed access in a second pair of brackets\<close>

lemma scan_second_bracket:
  "list_ex (\<lambda>pattern. regex_test pattern ''a[0][k]'') DANGEROUS_PATTERNS = False"
  "computedAccessThrows ''a[0][k]'' = False"
  "regex_test simplePropertyPattern ''a[0][k]'' = False"
  by code_simp+

lemma scan_first_bracket:
  "list_ex (\<lambda>pattern. regex_test pattern ''a[k]'') DANGEROUS_PATTERNS = False"
  "computedAccessThrows ''a[k]'' = True"
  by code_simp+

text \<open>
  C1 at the expression \<open>a[0][k]\<close>: the check of computed access looks at the first pair
  of brackets only, so the expression passes the security checks and is handed to the
  host's evaluator, while \<open>a[k]\<close> raises the security error.
\<close>

theorem evaluateExpression_second_bracket:
  "evaluateExpression F ''a[0][k]'' ctx =
     (case F (funcCode ''a[0][k]'' ctx) ctx of
        Inr result \<Rightarrow> Inr result
      | Inl e \<Rightarrow>
          if includes_js (message e) ''dangerous globals'' then Inl e
          else Inl (Error ''Invalid expression''))
   \<and> evaluateExpression F ''a[k]'' ctx = Inl (Error dangerousMessage)"
  unfolding evaluateExpression_def
  by (simp add: scan_second_bracket scan_first_bracket)

subsection \<open>C8: an assignment in an expression\<close>

lemma scan_assignment:
  "list_ex (\<lambda>pattern. regex_test pattern ''ctx.x = 5'') DANGEROUS_PATTERNS = False"
  "computedAccessThrows ''ctx.x = 5'' = False"
  "regex_test simplePropertyPattern ''ctx.x = 5'' = False"
  by code_simp+

lemma funcCode_assignment:
  "funcCode ''ctx.x = 5'' [(''x'', Number (Integer 1))] =
     [CHR 0x0A] @ ''      if (ctx == null) return undefined;'' @ [CHR 0x0A] @
     ''      const x = ctx['' @ [CHR 0x22] @ ''x'' @ [CHR 0x22] @ ''];'' @ [CHR 0x0A] @
     ''      return ctx.x = 5;'' @ [CHR 0x0A] @ ''    ''"
  by code_simp

text \<open>
  C8 at the node list of the single variable node \<open>ctx.x = 5\<close>: the expression passes
  the security checks, and the host's evaluator is called on the context of the caller
  itself with a function body that returns \<open>ctx.x = 5\<close>, where \<open>ctx\<close> is that context.
\<close>

theorem evaluate_assignment_reaches_host:
  "evaluateExpression F ''ctx.x = 5'' ctx =
     (case F (funcCode ''ctx.x = 5'' ctx) ctx of
        Inr result \<Rightarrow> Inr result
      | Inl e \<Rightarrow>
          if includes_js (message e) ''dangerous globals'' then Inl e
          else Inl (Error ''Invalid expression''))
   \<and> funcCode ''ctx.x = 5'' [(''x'', Number (Integer 1))] =
     [CHR 0x0A] @ ''      if (ctx == null) return undefined;'' @ [CHR 0x0A] @
     ''      const x = ctx['' @ [CHR 0x22] @ ''x'' @ [CHR 0x22] @ ''];'' @ [CHR 0x0A] @
     ''      return ctx.x = 5;'' @ [CHR 0x0A] @ ''    ''
   \<and> evaluate F [VariableNode ''ctx.x = 5''] ctx =
     (case evaluateExpression F ''ctx.x = 5'' ctx of
        Inr v \<Rightarrow> if v = Null \<or> v = Undefined then Inr [] else Inr (escapeHtml v)
      | Inl e \<Rightarrow>
          if includes_js (message e) ''dangerous globals''
          then Inl (EvaluationError dangerousMessage (Some (VariableNode ''ctx.x = 5'')))
          else if includes_js (message e) ''Invalid expression''
          then Inl (EvaluationError ''Invalid expression: ctx.x = 5'' (Some (VariableNode ''ctx.x = 5'')))
          else if includes_js (message e) ''Getter error'' then Inl e
          else Inr [])"
proof -
  have a: "evaluateExpression F ''ctx.x = 5'' ctx =
     (case F (funcCode ''ctx.x = 5'' ctx) ctx of
        Inr result \<Rightarrow> Inr result
      | Inl e \<Rightarrow>
          if includes_js (message e) ''dangerous globals'' then Inl e
          else Inl (Error ''Invalid expression''))"
    unfolding evaluateExpression_def by (simp add: scan_assignment)
  have c: "evaluate F [VariableNode ''ctx.x = 5''] ctx =
     (case evaluateExpression F ''ctx.x = 5'' ctx of
        Inr v \<Rightarrow> if v = Null \<or> v = Undefined then Inr [] else Inr (escapeHtml v)
      | Inl e \<Rightarrow>
          if includes_js (message e) ''dangerous globals''
          then Inl (EvaluationError dangerousMessage (Some (VariableNode ''ctx.x = 5'')))
          else if includes_js (message e) ''Invalid expression''
          then Inl (EvaluationError ''Invalid expression: ctx.x = 5'' (Some (VariableNode ''ctx.x = 5'')))
          else if includes_js (message e) ''Getter error'' then Inl e
          else Inr [])"
    by (simp add: evaluateVariable_def split: sum.splits)
  from a funcCode_assignment c show ?thesis by blast
qed


end
